theory Spec2Isabelle
  imports Main
begin

section \<open>The apartment registry of bot.py\<close>

text \<open>
  The bot keeps three SQLite tables (created by \<open>create_db\<close>): \<open>apartments\<close>, \<open>admins\<close>
  and \<open>approval_requests\<close>. Every command handler opens a connection, runs a few
  statements and commits. The embedding below models each handler as a function from the
  database, the acting user and the parsed arguments to the new database and the outcome
  the handler reports.

  Columns that no statement of the handlers below reads or writes explicitly are left
  out of the rows: the autoincrement \<open>id\<close> and the timestamps
  \<open>registration_date\<close>, \<open>added_date\<close> and \<open>request_date\<close> (all filled by defaults).

  No \<open>SELECT\<close> of the handlers below has an \<open>ORDER BY\<close>, so the order of its rows is the
  order in which SQLite walks the table or the index it answers the query from:
  \<^item> \<open>approval_requests\<close> has no index but its rowid, and the rowid is an \<open>AUTOINCREMENT\<close>
    key, so a \<open>SELECT\<close> on it scans the rows in insertion order. The table is the list of
    its rows in that order and an \<open>INSERT\<close> appends.
  \<^item> \<open>apartments\<close> carries \<open>UNIQUE(apartment_number, user_id)\<close>, and SQLite answers every
    \<open>SELECT\<close> of the handlers on this table from the index of that constraint, which
    holds both columns: the rows come back sorted by apartment number and then by user
    id, whatever the order of insertion. The table is the list of its rows in rowid
    order (an \<open>INSERT\<close> appends), and the two \<open>SELECT\<close>s are modelled by
    \<open>select_user_ids\<close> and \<open>select_apartment_numbers\<close> below, which sort.
  \<^item> \<open>admins\<close> has \<open>user_id\<close> as its primary key and the handlers below only ever ask it
    whether a given user has a row: it is a map from the user id to the \<open>added_by\<close>
    column.

  \<open>fetchone()\<close> is the first row of the result (\<open>None\<close> when there is none) and
  \<open>fetchall()\<close> the whole of it.

  The handlers' preambles that parse \<open>context.args\<close> into integers (\<open>isdigit\<close>, \<open>int\<close>)
  run before any statement touches the database; the models start after them and take
  the parsed integers. The secret code of \<open>force_registration\<close> is compared as a string,
  so that handler keeps \<open>context.args\<close> as a list of strings. Messages sent through the
  Telegram API happen after the commit and do not change the database; an outcome below
  names the branch of the handler that was taken, not the text of the reply.
\<close>

subsection \<open>Constants\<close>

definition HOUSE1_START :: int where "HOUSE1_START = 1"
definition HOUSE1_END :: int where "HOUSE1_END = 252"
definition HOUSE2_START :: int where "HOUSE2_START = 253"
definition HOUSE2_END :: int where "HOUSE2_END = 403"

definition FORCE_REGISTRATION_CODE :: string where
  "FORCE_REGISTRATION_CODE = ''2512''"

text \<open>
  \<open>MAIN_ADMIN_ID\<close> is read from the environment at start-up; every function that uses it
  takes it as its first parameter \<open>main_admin_id\<close>.
\<close>

subsection \<open>Tables\<close>

datatype status = Pending | Approved | Rejected

record apartment_row =
  apartment_number :: int
  user_id :: int

record request_row =
  req_apartment_number :: int
  requesting_user_id :: int
  approver_user_id :: int
  status :: status

record db =
  apartments :: "apartment_row list"
  admins :: "int \<rightharpoonup> int option"
  approval_requests :: "request_row list"

definition empty_db :: db where
  "empty_db = \<lparr>apartments = [], admins = Map.empty, approval_requests = []\<rparr>"

datatype db_error = IntegrityError

text \<open>
  \<open>INSERT INTO apartments (apartment_number, user_id) VALUES (?, ?)\<close> under the table's
  \<open>UNIQUE(apartment_number, user_id)\<close> constraint: sqlite3 raises \<open>IntegrityError\<close> when the
  pair is already stored, and appends the row (with the next rowid) otherwise.
\<close>

definition insert_apartment :: "int \<Rightarrow> int \<Rightarrow> apartment_row list \<Rightarrow> db_error + apartment_row list" where
  "insert_apartment n u rows =
     (if list_ex (\<lambda>l. apartment_number l = n \<and> user_id l = u) rows
      then Inl IntegrityError
      else Inr (rows @ [\<lparr>apartment_number = n, user_id = u\<rparr>]))"

text \<open>
  \<open>SELECT user_id FROM apartments WHERE apartment_number = ?\<close> and \<open>SELECT
  apartment_number FROM apartments WHERE user_id = ?\<close>, with their rows in the order of the
  index on (apartment_number, user_id): for one apartment that is the order of the user
  ids, for one user the order of the apartment numbers.
\<close>

definition select_user_ids :: "int \<Rightarrow> apartment_row list \<Rightarrow> int list" where
  "select_user_ids n rows = sort (map user_id (filter (\<lambda>l. apartment_number l = n) rows))"

definition select_apartment_numbers :: "int \<Rightarrow> apartment_row list \<Rightarrow> int list" where
  "select_apartment_numbers u rows =
     sort (map apartment_number (filter (\<lambda>l. user_id l = u) rows))"

text \<open>
  \<open>INSERT OR IGNORE INTO admins\<close>: \<open>user_id\<close> is the primary key, so a row for a user who
  already has one is ignored. The second argument is the \<open>added_by\<close> column, \<open>None\<close> for
  SQL's \<open>NULL\<close>.
\<close>

definition insert_or_ignore_admin :: "int \<Rightarrow> int option \<Rightarrow> (int \<rightharpoonup> int option) \<Rightarrow> (int \<rightharpoonup> int option)" where
  "insert_or_ignore_admin u by_whom rows =
     (case rows u of Some _ \<Rightarrow> rows | None \<Rightarrow> rows(u \<mapsto> by_whom))"

subsection \<open>Outcomes\<close>

text \<open>
  One constructor for each way a handler ends. The spec's error kinds correspond to them
  as follows: \<open>Invalid_apartment\<close> is its ValidationError, \<open>Request_not_found\<close> its
  Not-Found of approve and reject, \<open>Already_registered\<close> and \<open>Already_linked_here\<close> its
  Conflict, \<open>Admins_only\<close> and \<open>Main_admin_only\<close> its PermissionError. \<open>Unhandled\<close> is an
  exception that leaves the handler: the \<open>with\<close> block of the connection rolls the
  transaction back.
\<close>

datatype outcome =
    Invalid_apartment
  | Request_created int
  | Linked
  | Request_not_found
  | Already_registered int
  | Already_linked_here
  | Request_approved int
  | Request_rejected int
  | Main_admin_only
  | Admins_only
  | Secret_code_required
  | Database_cleared
  | Link_deleted int
  | No_apartment
  | Links_not_found
  | Unlinked "int list"
  | Already_free
  | Apartment_freed "int list"
  | Requests_cleared nat
  | Assigned "int list" "int list"
  | Admin_added
  | Cannot_remove_main_admin
  | Admin_removed
  | Unhandled db_error

subsection \<open>Helpers of the source\<close>

definition is_admin_user :: "db \<Rightarrow> int \<Rightarrow> bool" where
  "is_admin_user d uid = (admins d uid \<noteq> None)"

definition is_valid_apartment :: "int \<Rightarrow> bool" where
  "is_valid_apartment n =
     ((HOUSE1_START \<le> n \<and> n \<le> HOUSE1_END) \<or> (HOUSE2_START \<le> n \<and> n \<le> HOUSE2_END))"

text \<open>
  \<open>clear_pending_requests_from_db\<close>: \<open>DELETE FROM approval_requests WHERE status =
  'pending'\<close>; the function returns \<open>cursor.rowcount\<close>, the number of rows deleted.
\<close>

definition clear_pending_requests_from_db :: "db \<Rightarrow> db \<times> nat" where
  "clear_pending_requests_from_db d =
     (d\<lparr>approval_requests := filter (\<lambda>q. status q \<noteq> Pending) (approval_requests d)\<rparr>,
      length (filter (\<lambda>q. status q = Pending) (approval_requests d)))"

definition create_db :: "int \<Rightarrow> db \<Rightarrow> db" where
  "create_db main_admin_id d =
     d\<lparr>admins := insert_or_ignore_admin main_admin_id None (admins d)\<rparr>"

subsection \<open>Handlers\<close>

text \<open>\<open>request_apartment_access\<close> (command \<open>/setapartment\<close>), from the range check on.\<close>

definition request_apartment_access :: "db \<Rightarrow> int \<Rightarrow> int \<Rightarrow> db \<times> outcome" where
  "request_apartment_access d requester n =
     (if \<not> is_valid_apartment n then (d, Invalid_apartment)
      else
        (case select_user_ids n (apartments d) of
           existing_user_id # _ \<Rightarrow>
             (d\<lparr>approval_requests := approval_requests d @
                  [\<lparr>req_apartment_number = n, requesting_user_id = requester,
                    approver_user_id = existing_user_id, status = Pending\<rparr>]\<rparr>,
              Request_created existing_user_id)
         | [] \<Rightarrow>
             (case insert_apartment n requester (apartments d) of
                Inl e \<Rightarrow> (d, Unhandled e)
              | Inr rows \<Rightarrow> (d\<lparr>apartments := rows\<rparr>, Linked))))"

text \<open>
  \<open>approve_request\<close> (command \<open>/approve\<close>). The \<open>SELECT\<close> takes the first pending request
  of the requester addressed to the acting user; the \<open>UPDATE\<close> that follows the insert
  sets every such pending request to approved.
\<close>

definition pending_for :: "int \<Rightarrow> int \<Rightarrow> request_row \<Rightarrow> bool" where
  "pending_for requester approver q =
     (requesting_user_id q = requester \<and> approver_user_id q = approver \<and> status q = Pending)"

definition approve_request :: "db \<Rightarrow> int \<Rightarrow> int \<Rightarrow> db \<times> outcome" where
  "approve_request d approver requester =
     (case filter (pending_for requester approver) (approval_requests d) of
        [] \<Rightarrow> (d, Request_not_found)
      | request # _ \<Rightarrow>
          (case select_apartment_numbers requester (apartments d) of
             existing_apartment # _ \<Rightarrow> (d, Already_registered existing_apartment)
           | [] \<Rightarrow>
               (case insert_apartment (req_apartment_number request) requester (apartments d) of
                  Inl e \<Rightarrow> (d, Already_linked_here)
                | Inr rows \<Rightarrow>
                    (d\<lparr>apartments := rows,
                       approval_requests :=
                         map (\<lambda>q. if pending_for requester approver q
                                   then q\<lparr>status := Approved\<rparr> else q)
                             (approval_requests d)\<rparr>,
                     Request_approved (req_apartment_number request)))))"

text \<open>
  \<open>reject_request\<close> (command \<open>/reject\<close>). The \<open>SELECT\<close> asks for a pending request; the
  \<open>UPDATE\<close> is \<open>SET status = 'rejected' WHERE requesting_user_id = ? AND approver_user_id
  = ?\<close>, with no condition on the status.
\<close>

definition reject_request :: "db \<Rightarrow> int \<Rightarrow> int \<Rightarrow> db \<times> outcome" where
  "reject_request d approver requester =
     (case filter (pending_for requester approver) (approval_requests d) of
        request # _ \<Rightarrow>
          (d\<lparr>approval_requests :=
               map (\<lambda>q. if requesting_user_id q = requester \<and> approver_user_id q = approver
                         then q\<lparr>status := Rejected\<rparr> else q)
                   (approval_requests d)\<rparr>,
           Request_rejected (req_apartment_number request))
      | [] \<Rightarrow> (d, Request_not_found))"

text \<open>\<open>force_registration\<close> (command \<open>/forceregistration\<close>).\<close>

definition force_registration :: "int \<Rightarrow> db \<Rightarrow> int \<Rightarrow> string list \<Rightarrow> db \<times> outcome" where
  "force_registration main_admin_id d actor args =
     (if actor \<noteq> main_admin_id then (d, Main_admin_only)
      else
        (case args of
           [] \<Rightarrow> (d, Secret_code_required)
         | code # _ \<Rightarrow>
             (if code \<noteq> FORCE_REGISTRATION_CODE then (d, Secret_code_required)
              else (d\<lparr>apartments := [], approval_requests := []\<rparr>, Database_cleared))))"

text \<open>\<open>delete_apartment\<close> (command \<open>/deleteapartment\<close>).\<close>

definition delete_apartment :: "db \<Rightarrow> int \<Rightarrow> db \<times> outcome" where
  "delete_apartment d actor =
     (case select_apartment_numbers actor (apartments d) of
        apartment # _ \<Rightarrow>
          (d\<lparr>apartments := filter (\<lambda>l. user_id l \<noteq> actor) (apartments d)\<rparr>,
           Link_deleted apartment)
      | [] \<Rightarrow> (d, No_apartment))"

text \<open>
  \<open>admin_unlink\<close> (command \<open>/adminunlink\<close>); the optional second argument is the
  apartment number.
\<close>

definition admin_unlink :: "db \<Rightarrow> int \<Rightarrow> int \<Rightarrow> int option \<Rightarrow> db \<times> outcome" where
  "admin_unlink d actor target apartment =
     (if \<not> is_admin_user d actor then (d, Admins_only)
      else
        let sel = (case apartment of
                     Some n \<Rightarrow> (\<lambda>l. user_id l = target \<and> apartment_number l = n)
                   | None \<Rightarrow> (\<lambda>l. user_id l = target));
            found = sort (map apartment_number (filter sel (apartments d)))
        in if found = [] then (d, Links_not_found)
           else (d\<lparr>apartments := filter (\<lambda>l. \<not> sel l) (apartments d)\<rparr>,
                 Unlinked found))"

text \<open>\<open>admin_delete_apartment\<close> (command \<open>/admindelete\<close>).\<close>

definition admin_delete_apartment :: "db \<Rightarrow> int \<Rightarrow> int \<Rightarrow> db \<times> outcome" where
  "admin_delete_apartment d actor n =
     (if \<not> is_admin_user d actor then (d, Admins_only)
      else if \<not> is_valid_apartment n then (d, Invalid_apartment)
      else
        let residents = select_user_ids n (apartments d)
        in if residents = [] then (d, Already_free)
           else (d\<lparr>apartments := filter (\<lambda>l. apartment_number l \<noteq> n) (apartments d)\<rparr>,
                 Apartment_freed residents))"

text \<open>
  \<open>clear_approval_requests\<close> (command \<open>/clearrequests\<close>; the button handled by
  \<open>handle_admin_callback\<close> does the same to the database).
\<close>

definition clear_approval_requests :: "db \<Rightarrow> int \<Rightarrow> db \<times> outcome" where
  "clear_approval_requests d actor =
     (if \<not> is_admin_user d actor then (d, Admins_only)
      else
        (case clear_pending_requests_from_db d of
           (d', deleted) \<Rightarrow> (d', Requests_cleared deleted)))"

text \<open>
  \<open>admin_assign\<close> (command \<open>/adminassign\<close>): two \<open>DELETE\<close>s, an \<open>INSERT\<close> and an \<open>UPDATE\<close> in
  one transaction. The handler catches no exception of the database.
\<close>

definition admin_assign :: "db \<Rightarrow> int \<Rightarrow> int \<Rightarrow> int \<Rightarrow> db \<times> outcome" where
  "admin_assign d actor n target =
     (if \<not> is_admin_user d actor then (d, Admins_only)
      else if \<not> is_valid_apartment n then (d, Invalid_apartment)
      else
        let previous_residents = select_user_ids n (apartments d);
            previous_apartments = select_apartment_numbers target (apartments d);
            rows1 = filter (\<lambda>l. apartment_number l \<noteq> n) (apartments d);
            rows2 = filter (\<lambda>l. user_id l \<noteq> target) rows1
        in (case insert_apartment n target rows2 of
              Inl e \<Rightarrow> (d, Unhandled e)
            | Inr rows3 \<Rightarrow>
                (d\<lparr>apartments := rows3,
                   approval_requests :=
                     map (\<lambda>q. if req_apartment_number q = n \<and> requesting_user_id q = target
                                  \<and> status q = Pending
                               then q\<lparr>status := Approved, approver_user_id := actor\<rparr> else q)
                         (approval_requests d)\<rparr>,
                 Assigned previous_residents previous_apartments)))"

text \<open>
  \<open>add_admin\<close> and \<open>remove_admin\<close> (commands \<open>/addadmin\<close>, \<open>/removeadmin\<close>). The \<open>DELETE\<close>
  of \<open>remove_admin\<close> is \<open>WHERE user_id = ? AND user_id != ?\<close> with \<open>MAIN_ADMIN_ID\<close> for the
  second parameter.
\<close>

definition add_admin :: "int \<Rightarrow> db \<Rightarrow> int \<Rightarrow> int \<Rightarrow> db \<times> outcome" where
  "add_admin main_admin_id d actor new_admin_id =
     (if actor \<noteq> main_admin_id then (d, Main_admin_only)
      else (d\<lparr>admins := insert_or_ignore_admin new_admin_id (Some main_admin_id) (admins d)\<rparr>,
            Admin_added))"

definition remove_admin :: "int \<Rightarrow> db \<Rightarrow> int \<Rightarrow> int \<Rightarrow> db \<times> outcome" where
  "remove_admin main_admin_id d actor admin_id =
     (if actor \<noteq> main_admin_id then (d, Main_admin_only)
      else if admin_id = main_admin_id then (d, Cannot_remove_main_admin)
      else (d\<lparr>admins := (if admin_id \<noteq> main_admin_id then (admins d)(admin_id := None)
                          else admins d)\<rparr>,
            Admin_removed))"

subsection \<open>Sequences of commands\<close>

text \<open>
  The commands registered in \<open>main\<close> that write to the database, each with the acting
  user first. The other handlers (\<open>start\<close>, \<open>help\<close>, \<open>viewapartments\<close>, \<open>listadmins\<close>,
  \<open>apartmentstats\<close>, \<open>checkall\<close>, the message filter) only read.
\<close>

datatype command =
    SetApartment int int
  | Approve int int
  | Reject int int
  | DeleteApartment int
  | ForceRegistration int "string list"
  | AdminUnlink int int "int option"
  | AdminDelete int int
  | ClearRequests int
  | AdminAssign int int int
  | AddAdmin int int
  | RemoveAdmin int int

fun handle :: "int \<Rightarrow> db \<Rightarrow> command \<Rightarrow> db \<times> outcome" where
  "handle m d (SetApartment actor n) = request_apartment_access d actor n"
| "handle m d (Approve actor requester) = approve_request d actor requester"
| "handle m d (Reject actor requester) = reject_request d actor requester"
| "handle m d (DeleteApartment actor) = delete_apartment d actor"
| "handle m d (ForceRegistration actor args) = force_registration m d actor args"
| "handle m d (AdminUnlink actor target apartment) = admin_unlink d actor target apartment"
| "handle m d (AdminDelete actor n) = admin_delete_apartment d actor n"
| "handle m d (ClearRequests actor) = clear_approval_requests d actor"
| "handle m d (AdminAssign actor n target) = admin_assign d actor n target"
| "handle m d (AddAdmin actor new_admin_id) = add_admin m d actor new_admin_id"
| "handle m d (RemoveAdmin actor admin_id) = remove_admin m d actor admin_id"

fun run :: "int \<Rightarrow> db \<Rightarrow> command list \<Rightarrow> db" where
  "run m d [] = d"
| "run m d (c # cs) = run m (fst (handle m d c)) cs"

subsection \<open>Example states\<close>

text \<open>
  Small databases used to instantiate the theorems below: one occupied apartment;
  an apartment with two occupants, of which user 5 registered before user 1, and a
  pending request elsewhere; and two pending
  requests addressed to the occupant of apartment 10, one of them from a user who is
  already registered, first in apartment 30 and then in apartment 20.
\<close>

definition db_a :: db where
  "db_a = \<lparr>apartments = [\<lparr>apartment_number = 10, user_id = 1\<rparr>],
          admins = [100 \<mapsto> None],
          approval_requests = []\<rparr>"

definition db_b :: db where
  "db_b = \<lparr>apartments = [\<lparr>apartment_number = 10, user_id = 5\<rparr>,
                         \<lparr>apartment_number = 20, user_id = 3\<rparr>,
                         \<lparr>apartment_number = 10, user_id = 1\<rparr>],
          admins = [100 \<mapsto> None],
          approval_requests = [\<lparr>req_apartment_number = 20, requesting_user_id = 5,
                                 approver_user_id = 3, status = Pending\<rparr>]\<rparr>"


text \<open>
  A fourth state: user 4 holds two links (apartment 30, registered first, and
  apartment 20), apartment 10 has two occupants, and there are two administrators.
\<close>

definition db_e :: db where
  "db_e = \<lparr>apartments = [\<lparr>apartment_number = 10, user_id = 1\<rparr>,
                         \<lparr>apartment_number = 30, user_id = 4\<rparr>,
                         \<lparr>apartment_number = 10, user_id = 2\<rparr>,
                         \<lparr>apartment_number = 20, user_id = 4\<rparr>,
                         \<lparr>apartment_number = 40, user_id = 6\<rparr>],
          admins = [100 \<mapsto> None, 50 \<mapsto> Some 100],
          approval_requests = [\<lparr>req_apartment_number = 10, requesting_user_id = 4,
                                 approver_user_id = 1, status = Pending\<rparr>,
                               \<lparr>req_apartment_number = 10, requesting_user_id = 4,
                                 approver_user_id = 1, status = Rejected\<rparr>,
                               \<lparr>req_apartment_number = 10, requesting_user_id = 6,
                                 approver_user_id = 1, status = Pending\<rparr>]\<rparr>"

section \<open>Properties\<close>

subsection \<open>Helper facts\<close>

lemma filter_empty_no_pair:
  "filter (\<lambda>l. apartment_number l = n) rows = [] \<Longrightarrow>
   \<not> list_ex (\<lambda>l. apartment_number l = n \<and> user_id l = u) rows"
  by (auto simp: filter_empty_conv list_ex_iff)


lemma sort_eq_Nil_iff: "sort xs = [] \<longleftrightarrow> xs = []"
  by (metis length_0_conv length_sort)

lemma select_user_ids_Nil_iff:
  "select_user_ids n rows = [] \<longleftrightarrow> filter (\<lambda>l. apartment_number l = n) rows = []"
  by (simp add: select_user_ids_def sort_eq_Nil_iff)

lemma select_apartment_numbers_Nil_iff:
  "select_apartment_numbers u rows = [] \<longleftrightarrow> filter (\<lambda>l. user_id l = u) rows = []"
  by (simp add: select_apartment_numbers_def sort_eq_Nil_iff)

lemma hd_sort_Min:
  fixes xs :: "int list"
  assumes "xs \<noteq> []"
  shows "hd (sort xs) = Min (set xs)"
proof -
  obtain y ys where ys: "sort xs = y # ys"
    using assms by (cases "sort xs") (simp_all add: sort_eq_Nil_iff)
  have "sorted (sort xs)" by simp
  then have srt: "sorted (y # ys)" by (simp add: ys)
  have "set (sort xs) = set xs" by simp
  then have st: "set xs = set (y # ys)" by (simp add: ys)
  have "Min (set (y # ys)) = y"
  proof (rule Min_eqI)
    show "finite (set (y # ys))" by simp
    show "\<And>z. z \<in> set (y # ys) \<Longrightarrow> y \<le> z" using srt by auto
    show "y \<in> set (y # ys)" by simp
  qed
  then show ?thesis by (simp add: ys st)
qed

lemma is_valid_apartment_iff: "is_valid_apartment n \<longleftrightarrow> (1 \<le> n \<and> n \<le> 403)"
  by (auto simp: is_valid_apartment_def HOUSE1_START_def HOUSE1_END_def HOUSE2_START_def HOUSE2_END_def)

lemma filter_after_deletes:
  "filter (\<lambda>l. apartment_number l \<noteq> n \<and> user_id l \<noteq> t)
     (filter (\<lambda>l. user_id l \<noteq> t) (filter (\<lambda>l. apartment_number l \<noteq> n) xs)) =
   filter (\<lambda>l. apartment_number l \<noteq> n \<and> user_id l \<noteq> t) xs"
proof (induction xs)
  case Nil
  show ?case by simp
next
  case (Cons x xs)
  show ?case
  proof (cases "apartment_number x \<noteq> n \<and> user_id x \<noteq> t")
    case True
    then show ?thesis using Cons.IH by (simp del: filter_filter)
  next
    case False
    then show ?thesis using Cons.IH by (cases "apartment_number x = n") (simp_all del: filter_filter)
  qed
qed


text \<open>
  No handler removes the row of the main administrator from \<open>admins\<close>: only \<open>add_admin\<close>
  and \<open>remove_admin\<close> write to that table, the first only adds, and the \<open>DELETE\<close> of the
  second excludes \<open>MAIN_ADMIN_ID\<close>.
\<close>

lemma create_db_seeds: "is_admin_user (create_db m d) m"
  by (simp add: create_db_def is_admin_user_def insert_or_ignore_admin_def split: option.splits)

lemma handle_keeps_main_admin:
  assumes "is_admin_user d m"
  shows "is_admin_user (fst (handle m d c)) m"
proof (cases c)
  case (SetApartment actor n)
  then show ?thesis using assms
    by (simp add: request_apartment_access_def is_admin_user_def
        split: list.splits sum.splits)
next
  case (Approve actor requester)
  then show ?thesis using assms
    by (simp add: approve_request_def is_admin_user_def split: list.splits sum.splits)
next
  case (Reject actor requester)
  then show ?thesis using assms
    by (simp add: reject_request_def is_admin_user_def split: list.splits)
next
  case (DeleteApartment actor)
  then show ?thesis using assms
    by (simp add: delete_apartment_def is_admin_user_def split: list.splits)
next
  case (ForceRegistration actor args)
  then show ?thesis using assms
    by (simp add: force_registration_def is_admin_user_def split: list.splits)
next
  case (AdminUnlink actor target apartment)
  then show ?thesis using assms
    by (simp add: admin_unlink_def is_admin_user_def Let_def)
next
  case (AdminDelete actor n)
  then show ?thesis using assms
    by (simp add: admin_delete_apartment_def is_admin_user_def Let_def)
next
  case (ClearRequests actor)
  then show ?thesis using assms
    by (simp add: clear_approval_requests_def clear_pending_requests_from_db_def is_admin_user_def)
next
  case (AdminAssign actor n target)
  then show ?thesis using assms
    by (simp add: admin_assign_def is_admin_user_def Let_def split: sum.splits)
next
  case (AddAdmin actor new_admin_id)
  then show ?thesis using assms
    by (auto simp: add_admin_def is_admin_user_def insert_or_ignore_admin_def
        split: option.splits)
next
  case (RemoveAdmin actor admin_id)
  then show ?thesis using assms
    by (simp add: remove_admin_def is_admin_user_def)
qed

lemma run_keeps_main_admin:
  "is_admin_user d m \<Longrightarrow> is_admin_user (run m d cs) m"
  by (induction cs arbitrary: d) (simp_all add: handle_keeps_main_admin)

subsection \<open>Clearing the pending queue\<close>

text \<open>
  Claim C7. \<open>clear_pending_requests_from_db\<close> deletes exactly the rows whose status is
  pending: the table afterwards is the old one without them, the approved and rejected
  rows are the same rows in the same order, no pending row is left, and the other tables
  are untouched. The number returned is the number of pending rows at call time, and a
  second call right after the first returns 0.
\<close>

theorem clear_pending_exact:
  "approval_requests (fst (clear_pending_requests_from_db d)) =
     filter (\<lambda>q. status q \<noteq> Pending) (approval_requests d)
   \<and> filter (\<lambda>q. status q = Approved \<or> status q = Rejected)
        (approval_requests (fst (clear_pending_requests_from_db d))) =
      filter (\<lambda>q. status q = Approved \<or> status q = Rejected) (approval_requests d)
   \<and> filter (\<lambda>q. status q = Pending)
        (approval_requests (fst (clear_pending_requests_from_db d))) = []
   \<and> snd (clear_pending_requests_from_db d) =
        length (filter (\<lambda>q. status q = Pending) (approval_requests d))
   \<and> length (approval_requests (fst (clear_pending_requests_from_db d)))
        + snd (clear_pending_requests_from_db d) = length (approval_requests d)
   \<and> apartments (fst (clear_pending_requests_from_db d)) = apartments d
   \<and> admins (fst (clear_pending_requests_from_db d)) = admins d
   \<and> snd (clear_pending_requests_from_db (fst (clear_pending_requests_from_db d))) = 0"
proof -
  have ne: "\<And>q. (status q \<noteq> Pending) = (status q = Approved \<or> status q = Rejected)"
    by (metis status.exhaust status.distinct(1,3))
  have len: "length (filter (\<lambda>q. status q \<noteq> Pending) (approval_requests d))
      + length (filter (\<lambda>q. status q = Pending) (approval_requests d))
      = length (approval_requests d)"
    using sum_length_filter_compl [of "\<lambda>q. status q = Pending" "approval_requests d"]
    by simp
  have none: "filter (\<lambda>q. status q = Pending)
      (filter (\<lambda>q. status q \<noteq> Pending) (approval_requests d)) = []"
    by (simp add: filter_empty_conv)
  show ?thesis
    using len none by (simp add: clear_pending_requests_from_db_def ne [symmetric])
qed

subsection \<open>Claims on apartments outside the two houses\<close>

text \<open>
  Claim C3. For an apartment number outside both inclusive ranges 1-252 and 253-403,
  \<open>request_apartment_access\<close> answers with the invalid-number reply (the spec's
  ValidationError) and the database is the one it started from: no occupancy link and no
  approval request is created.
\<close>

theorem out_of_range_rejected:
  assumes "\<not> (1 \<le> n \<and> n \<le> 252)" and "\<not> (253 \<le> n \<and> n \<le> 403)"
  shows "request_apartment_access d requester n = (d, Invalid_apartment)"
  using assms
  by (simp add: request_apartment_access_def is_valid_apartment_def
      HOUSE1_START_def HOUSE1_END_def HOUSE2_START_def HOUSE2_END_def)

theorem out_of_range_rejected_witness:
  "request_apartment_access (create_db 1 empty_db) 7 999 = (create_db 1 empty_db, Invalid_apartment)
   \<and> request_apartment_access (create_db 1 empty_db) 7 0 = (create_db 1 empty_db, Invalid_apartment)
   \<and> request_apartment_access (create_db 1 empty_db) 7 404 = (create_db 1 empty_db, Invalid_apartment)"
  using out_of_range_rejected [of 999 "create_db 1 empty_db" 7]
    out_of_range_rejected [of 0 "create_db 1 empty_db" 7]
    out_of_range_rejected [of 404 "create_db 1 empty_db" 7]
  by simp

subsection \<open>Submitting a claim\<close>

text \<open>
  Claim C2. For an apartment in one of the two ranges: when no row of \<open>apartments\<close> has
  that number, \<open>request_apartment_access\<close> appends exactly the link (apartment, requester)
  and leaves \<open>approval_requests\<close> as it was; when at least one row has that number, it
  appends exactly one request, with status pending, for that apartment and requester
  (its approver is the first user id the \<open>SELECT\<close> returns), and leaves \<open>apartments\<close> as it
  was. The \<open>admins\<close> table is unchanged either way.
\<close>

theorem submit_vacant_or_occupied:
  assumes "is_valid_apartment n"
  shows "(filter (\<lambda>l. apartment_number l = n) (apartments d) = [] \<longrightarrow>
            apartments (fst (request_apartment_access d requester n)) =
              apartments d @ [\<lparr>apartment_number = n, user_id = requester\<rparr>]
          \<and> approval_requests (fst (request_apartment_access d requester n)) = approval_requests d
          \<and> admins (fst (request_apartment_access d requester n)) = admins d
          \<and> snd (request_apartment_access d requester n) = Linked)
       \<and> (filter (\<lambda>l. apartment_number l = n) (apartments d) \<noteq> [] \<longrightarrow>
            approval_requests (fst (request_apartment_access d requester n)) =
              approval_requests d @
                [\<lparr>req_apartment_number = n, requesting_user_id = requester,
                  approver_user_id = hd (select_user_ids n (apartments d)),
                  status = Pending\<rparr>]
          \<and> apartments (fst (request_apartment_access d requester n)) = apartments d
          \<and> admins (fst (request_apartment_access d requester n)) = admins d)"
proof (intro conjI impI)
  assume vac: "filter (\<lambda>l. apartment_number l = n) (apartments d) = []"
  have sel: "select_user_ids n (apartments d) = []"
    using vac by (simp add: select_user_ids_Nil_iff)
  have ins: "insert_apartment n requester (apartments d) =
      Inr (apartments d @ [\<lparr>apartment_number = n, user_id = requester\<rparr>])"
    using filter_empty_no_pair [OF vac] by (simp add: insert_apartment_def)
  have res: "request_apartment_access d requester n =
      (d\<lparr>apartments := apartments d @ [\<lparr>apartment_number = n, user_id = requester\<rparr>]\<rparr>, Linked)"
    using assms sel ins by (simp add: request_apartment_access_def)
  show "apartments (fst (request_apartment_access d requester n)) =
      apartments d @ [\<lparr>apartment_number = n, user_id = requester\<rparr>]"
    by (simp add: res)
  show "approval_requests (fst (request_apartment_access d requester n)) = approval_requests d"
    by (simp add: res)
  show "admins (fst (request_apartment_access d requester n)) = admins d"
    by (simp add: res)
  show "snd (request_apartment_access d requester n) = Linked"
    by (simp add: res)
next
  assume occ: "filter (\<lambda>l. apartment_number l = n) (apartments d) \<noteq> []"
  then have "select_user_ids n (apartments d) \<noteq> []"
    by (simp add: select_user_ids_Nil_iff)
  then obtain u us where us: "select_user_ids n (apartments d) = u # us"
    by (meson neq_Nil_conv)
  have res: "request_apartment_access d requester n =
      (d\<lparr>approval_requests := approval_requests d @
           [\<lparr>req_apartment_number = n, requesting_user_id = requester,
              approver_user_id = u, status = Pending\<rparr>]\<rparr>, Request_created u)"
    using assms us by (simp add: request_apartment_access_def)
  show "approval_requests (fst (request_apartment_access d requester n)) =
              approval_requests d @
                [\<lparr>req_apartment_number = n, requesting_user_id = requester,
                  approver_user_id = hd (select_user_ids n (apartments d)),
                  status = Pending\<rparr>]"
    by (simp add: res us)
  show "apartments (fst (request_apartment_access d requester n)) = apartments d"
    by (simp add: res)
  show "admins (fst (request_apartment_access d requester n)) = admins d"
    by (simp add: res)
qed

theorem submit_vacant_or_occupied_witness:
  "apartments (fst (request_apartment_access db_a 2 11)) =
      [\<lparr>apartment_number = 10, user_id = 1\<rparr>, \<lparr>apartment_number = 11, user_id = 2\<rparr>]
   \<and> approval_requests (fst (request_apartment_access db_a 2 11)) = []
   \<and> snd (request_apartment_access db_a 2 11) = Linked
   \<and> approval_requests (fst (request_apartment_access db_a 2 10)) =
      [\<lparr>req_apartment_number = 10, requesting_user_id = 2, approver_user_id = 1, status = Pending\<rparr>]
   \<and> apartments (fst (request_apartment_access db_a 2 10)) = [\<lparr>apartment_number = 10, user_id = 1\<rparr>]"
proof -
  have v10: "is_valid_apartment 10" and v11: "is_valid_apartment 11"
    by (simp_all add: is_valid_apartment_iff)
  have vac: "filter (\<lambda>l. apartment_number l = 11) (apartments db_a) = []"
    by (simp add: db_a_def)
  have occ: "filter (\<lambda>l. apartment_number l = 10) (apartments db_a) \<noteq> []"
    by (simp add: db_a_def)
  note a = submit_vacant_or_occupied [OF v11, of db_a 2, THEN conjunct1, rule_format, OF vac]
  note b = submit_vacant_or_occupied [OF v10, of db_a 2, THEN conjunct2, rule_format, OF occ]
  show ?thesis using a b by (simp add: db_a_def select_user_ids_def)
qed

text \<open>
  Claim C5. When the apartment is occupied, the approver written into the new request is
  the first row the \<open>SELECT\<close> on that apartment returns, whatever other occupants there
  are: the requests added by the call are exactly one, and its approver is that user.
  The \<open>SELECT\<close> is answered from the index on (apartment_number, user_id), so its first
  row is the occupant with the least user id, not the one who registered first.
\<close>

theorem approver_is_first_resident:
  assumes "is_valid_apartment n"
    and "filter (\<lambda>l. apartment_number l = n) (apartments d) \<noteq> []"
  shows "map approver_user_id
           (drop (length (approval_requests d))
              (approval_requests (fst (request_apartment_access d requester n)))) =
           [hd (select_user_ids n (apartments d))]
       \<and> take (length (approval_requests d))
              (approval_requests (fst (request_apartment_access d requester n))) = approval_requests d
       \<and> snd (request_apartment_access d requester n) =
           Request_created (hd (select_user_ids n (apartments d)))
       \<and> hd (select_user_ids n (apartments d)) =
           Min (set (map user_id (filter (\<lambda>l. apartment_number l = n) (apartments d))))"
proof -
  from assms(2) have "select_user_ids n (apartments d) \<noteq> []"
    by (simp add: select_user_ids_Nil_iff)
  then obtain u us where us: "select_user_ids n (apartments d) = u # us"
    by (meson neq_Nil_conv)
  have res: "request_apartment_access d requester n =
      (d\<lparr>approval_requests := approval_requests d @
           [\<lparr>req_apartment_number = n, requesting_user_id = requester,
              approver_user_id = u, status = Pending\<rparr>]\<rparr>, Request_created u)"
    using assms(1) us by (simp add: request_apartment_access_def)
  have least: "hd (select_user_ids n (apartments d)) =
      Min (set (map user_id (filter (\<lambda>l. apartment_number l = n) (apartments d))))"
    unfolding select_user_ids_def using assms(2) by (intro hd_sort_Min) simp
  show ?thesis using least by (simp add: res us)
qed

theorem approver_is_first_resident_witness:
  "select_user_ids 10 (apartments db_b) = [1, 5]
   \<and> map approver_user_id (drop 1 (approval_requests (fst (request_apartment_access db_b 2 10)))) = [1]
   \<and> snd (request_apartment_access db_b 2 10) = Request_created 1
   \<and> map approver_user_id
        (approval_requests
           (run 100 (create_db 100 empty_db)
              [SetApartment 5 10, SetApartment 1 10, Approve 5 1, SetApartment 2 10])) = [5, 1]"
proof -
  have v: "is_valid_apartment 10" by (simp add: is_valid_apartment_iff)
  have f: "filter (\<lambda>l. apartment_number l = 10) (apartments db_b) \<noteq> []"
    by (simp add: db_b_def)
  have sel: "select_user_ids 10 (apartments db_b) = [1, 5]"
    by (simp add: select_user_ids_def db_b_def)
  have len: "length (approval_requests db_b) = 1"
    by (simp add: db_b_def)
  have sequence: "map approver_user_id
        (approval_requests
           (run 100 (create_db 100 empty_db)
              [SetApartment 5 10, SetApartment 1 10, Approve 5 1, SetApartment 2 10])) = [5, 1]"
    by (simp add: create_db_def empty_db_def insert_or_ignore_admin_def
        request_apartment_access_def is_valid_apartment_iff insert_apartment_def
        approve_request_def pending_for_def select_user_ids_def select_apartment_numbers_def)
  show ?thesis
    using approver_is_first_resident [OF v f, of 2] sequence by (simp add: sel len)
qed

subsection \<open>Approving a request\<close>



subsection \<open>Forced assignment\<close>

text \<open>
  Claim C6. For an acting administrator, an apartment in range and any prior database,
  after \<open>admin_assign\<close> the only row of \<open>apartments\<close> with that number is the link to the
  target user, and it is also the only row of the target user; links that concern neither
  the apartment nor the user are kept. Every request for (apartment, target) that was
  pending is approved with the acting administrator as approver; all other requests are
  unchanged.
\<close>

theorem admin_assign_exclusive:
  assumes "is_admin_user d actor" and "is_valid_apartment n"
  shows "filter (\<lambda>l. apartment_number l = n) (apartments (fst (admin_assign d actor n target))) =
           [\<lparr>apartment_number = n, user_id = target\<rparr>]
       \<and> filter (\<lambda>l. user_id l = target) (apartments (fst (admin_assign d actor n target))) =
           [\<lparr>apartment_number = n, user_id = target\<rparr>]
       \<and> filter (\<lambda>l. apartment_number l \<noteq> n \<and> user_id l \<noteq> target)
           (apartments (fst (admin_assign d actor n target))) =
         filter (\<lambda>l. apartment_number l \<noteq> n \<and> user_id l \<noteq> target) (apartments d)
       \<and> approval_requests (fst (admin_assign d actor n target)) =
           map (\<lambda>q. if req_apartment_number q = n \<and> requesting_user_id q = target \<and> status q = Pending
                     then q\<lparr>status := Approved, approver_user_id := actor\<rparr> else q)
             (approval_requests d)
       \<and> admins (fst (admin_assign d actor n target)) = admins d"
proof -
  let ?rows2 = "filter (\<lambda>l. user_id l \<noteq> target) (filter (\<lambda>l. apartment_number l \<noteq> n) (apartments d))"
  have no: "\<not> list_ex (\<lambda>l. apartment_number l = n \<and> user_id l = target) ?rows2"
    by (auto simp: list_ex_iff)
  have ins: "insert_apartment n target ?rows2 = Inr (?rows2 @ [\<lparr>apartment_number = n, user_id = target\<rparr>])"
    using no by (simp add: insert_apartment_def)
  have res: "fst (admin_assign d actor n target) =
      d\<lparr>apartments := ?rows2 @ [\<lparr>apartment_number = n, user_id = target\<rparr>],
        approval_requests :=
          map (\<lambda>q. if req_apartment_number q = n \<and> requesting_user_id q = target \<and> status q = Pending
                    then q\<lparr>status := Approved, approver_user_id := actor\<rparr> else q)
            (approval_requests d)\<rparr>"
    using assms ins by (simp add: admin_assign_def Let_def)
  have f1: "filter (\<lambda>l. apartment_number l = n) ?rows2 = []"
    by (auto simp: filter_empty_conv)
  have f2: "filter (\<lambda>l. user_id l = target) ?rows2 = []"
    by (auto simp: filter_empty_conv)
  have f3: "filter (\<lambda>l. apartment_number l \<noteq> n \<and> user_id l \<noteq> target) ?rows2 =
      filter (\<lambda>l. apartment_number l \<noteq> n \<and> user_id l \<noteq> target) (apartments d)"
    by (rule filter_after_deletes)
  show ?thesis
    using f1 f2 f3 by (simp add: res)
qed

theorem admin_assign_exclusive_witness:
  "filter (\<lambda>l. apartment_number l = 10) (apartments (fst (admin_assign db_e 50 10 4))) =
     [\<lparr>apartment_number = 10, user_id = 4\<rparr>]
   \<and> filter (\<lambda>l. user_id l = 4) (apartments (fst (admin_assign db_e 50 10 4))) =
     [\<lparr>apartment_number = 10, user_id = 4\<rparr>]
   \<and> apartments (fst (admin_assign db_e 50 10 4)) =
     [\<lparr>apartment_number = 40, user_id = 6\<rparr>, \<lparr>apartment_number = 10, user_id = 4\<rparr>]
   \<and> approval_requests (fst (admin_assign db_e 50 10 4)) =
     [\<lparr>req_apartment_number = 10, requesting_user_id = 4, approver_user_id = 50, status = Approved\<rparr>,
      \<lparr>req_apartment_number = 10, requesting_user_id = 4, approver_user_id = 1, status = Rejected\<rparr>,
      \<lparr>req_apartment_number = 10, requesting_user_id = 6, approver_user_id = 1, status = Pending\<rparr>]"
proof -
  have a: "is_admin_user db_e 50" by (simp add: is_admin_user_def db_e_def)
  have v: "is_valid_apartment 10" by (simp add: is_valid_apartment_iff)
  note t = admin_assign_exclusive [OF a v, of 4]
  have rows: "apartments (fst (admin_assign db_e 50 10 4)) =
     [\<lparr>apartment_number = 40, user_id = 6\<rparr>, \<lparr>apartment_number = 10, user_id = 4\<rparr>]"
    using a v by (simp add: admin_assign_def insert_apartment_def Let_def db_e_def)
  have reqs: "approval_requests db_e =
     [\<lparr>req_apartment_number = 10, requesting_user_id = 4, approver_user_id = 1, status = Pending\<rparr>,
      \<lparr>req_apartment_number = 10, requesting_user_id = 4, approver_user_id = 1, status = Rejected\<rparr>,
      \<lparr>req_apartment_number = 10, requesting_user_id = 6, approver_user_id = 1, status = Pending\<rparr>]"
    by (simp add: db_e_def)
  show ?thesis using t by (simp add: rows reqs)
qed

subsection \<open>The main administrator\<close>

text \<open>
  Claim C8. \<open>remove_admin\<close> aimed at the main administrator's id is refused whoever calls
  it (the main administrator gets the cannot-remove reply, everyone else the
  main-administrator-only reply) and the database, so the \<open>admins\<close> table too, is
  unchanged. After \<open>create_db\<close> has seeded the main administrator, it is still an
  administrator after any sequence of commands.
\<close>

theorem main_admin_never_removed:
  "fst (remove_admin m d actor m) = d
   \<and> snd (remove_admin m d actor m) =
       (if actor = m then Cannot_remove_main_admin else Main_admin_only)
   \<and> is_admin_user (run m (create_db m d) cs) m"
  by (simp add: remove_admin_def run_keeps_main_admin create_db_seeds)

subsection \<open>Full reset\<close>

text \<open>
  Claim C9. \<open>force_registration\<close> clears the database exactly when the caller is the main
  administrator and the first argument is the secret code 2512: then \<open>apartments\<close> and
  \<open>approval_requests\<close> (requests of every status) are empty afterwards and \<open>admins\<close> is
  unchanged. Otherwise the database is unchanged and the handler does not report a
  reset.
\<close>

theorem force_registration_gate:
  "(actor = m \<and> (\<exists>rest. args = ''2512'' # rest) \<longrightarrow>
      apartments (fst (force_registration m d actor args)) = []
      \<and> approval_requests (fst (force_registration m d actor args)) = []
      \<and> admins (fst (force_registration m d actor args)) = admins d
      \<and> snd (force_registration m d actor args) = Database_cleared)
   \<and> (\<not> (actor = m \<and> (\<exists>rest. args = ''2512'' # rest)) \<longrightarrow>
      fst (force_registration m d actor args) = d
      \<and> snd (force_registration m d actor args) \<noteq> Database_cleared)"
  by (cases args) (auto simp: force_registration_def FORCE_REGISTRATION_CODE_def)

theorem force_registration_gate_witness:
  "apartments (fst (force_registration 100 db_e 100 [''2512''])) = []
   \<and> approval_requests (fst (force_registration 100 db_e 100 [''2512''])) = []
   \<and> admins (fst (force_registration 100 db_e 100 [''2512''])) = admins db_e
   \<and> snd (force_registration 100 db_e 100 [''2512'']) = Database_cleared
   \<and> fst (force_registration 100 db_e 50 [''2512'']) = db_e
   \<and> fst (force_registration 100 db_e 100 [''2513'']) = db_e
   \<and> fst (force_registration 100 db_e 100 []) = db_e"
  using force_registration_gate [of 100 100 "[''2512'']" db_e, THEN conjunct1]
    force_registration_gate [of 50 100 "[''2512'']" db_e, THEN conjunct2]
    force_registration_gate [of 100 100 "[''2513'']" db_e, THEN conjunct2]
    force_registration_gate [of 100 100 "[]" db_e, THEN conjunct2]
  by simp

subsection \<open>Releasing one's own link\<close>

text \<open>
  Claim C10. \<open>delete_apartment\<close> by a user who holds at least one link deletes every
  link of that user, in all apartments, keeps the links of everybody else and the other
  tables, and reports one apartment only, that of the first row the \<open>SELECT\<close> on the
  user's links returns. By a user without a link it changes nothing and reports that
  there is no linked apartment.
\<close>

theorem delete_apartment_all_links:
  "(filter (\<lambda>l. user_id l = actor) (apartments d) \<noteq> [] \<longrightarrow>
      apartments (fst (delete_apartment d actor)) =
        filter (\<lambda>l. user_id l \<noteq> actor) (apartments d)
      \<and> filter (\<lambda>l. user_id l = actor) (apartments (fst (delete_apartment d actor))) = []
      \<and> approval_requests (fst (delete_apartment d actor)) = approval_requests d
      \<and> admins (fst (delete_apartment d actor)) = admins d
      \<and> snd (delete_apartment d actor) =
          Link_deleted (hd (select_apartment_numbers actor (apartments d))))
   \<and> (filter (\<lambda>l. user_id l = actor) (apartments d) = [] \<longrightarrow>
      delete_apartment d actor = (d, No_apartment))"
proof (intro conjI impI)
  assume "filter (\<lambda>l. user_id l = actor) (apartments d) = []"
  then have "select_apartment_numbers actor (apartments d) = []"
    by (simp add: select_apartment_numbers_Nil_iff)
  then show "delete_apartment d actor = (d, No_apartment)"
    by (simp add: delete_apartment_def)
next
  assume "filter (\<lambda>l. user_id l = actor) (apartments d) \<noteq> []"
  then have "select_apartment_numbers actor (apartments d) \<noteq> []"
    by (simp add: select_apartment_numbers_Nil_iff)
  then obtain l ls where l: "select_apartment_numbers actor (apartments d) = l # ls"
    by (meson neq_Nil_conv)
  have res: "delete_apartment d actor =
      (d\<lparr>apartments := filter (\<lambda>l. user_id l \<noteq> actor) (apartments d)\<rparr>,
       Link_deleted l)"
    by (simp add: delete_apartment_def l)
  show "apartments (fst (delete_apartment d actor)) =
        filter (\<lambda>l. user_id l \<noteq> actor) (apartments d)"
    by (simp add: res)
  show "filter (\<lambda>l. user_id l = actor) (apartments (fst (delete_apartment d actor))) = []"
    by (simp add: res filter_empty_conv)
  show "approval_requests (fst (delete_apartment d actor)) = approval_requests d"
    by (simp add: res)
  show "admins (fst (delete_apartment d actor)) = admins d"
    by (simp add: res)
  show "snd (delete_apartment d actor) =
          Link_deleted (hd (select_apartment_numbers actor (apartments d)))"
    by (simp add: res l)
qed

theorem delete_apartment_all_links_witness:
  "apartments (fst (delete_apartment db_e 4)) =
     [\<lparr>apartment_number = 10, user_id = 1\<rparr>, \<lparr>apartment_number = 10, user_id = 2\<rparr>,
      \<lparr>apartment_number = 40, user_id = 6\<rparr>]
   \<and> snd (delete_apartment db_e 4) = Link_deleted 20
   \<and> delete_apartment db_e 9 = (db_e, No_apartment)"
proof -
  have h: "filter (\<lambda>l. user_id l = 4) (apartments db_e) \<noteq> []"
    by (simp add: db_e_def)
  have n: "filter (\<lambda>l. user_id l = 9) (apartments db_e) = []"
    by (simp add: db_e_def)
  note t1 = delete_apartment_all_links [of 4 db_e, THEN conjunct1, rule_format, OF h]
  note t2 = delete_apartment_all_links [of 9 db_e, THEN conjunct2, rule_format, OF n]
  show ?thesis using t1 t2 by (simp add: db_e_def select_apartment_numbers_def)
qed

subsection \<open>Rejecting a request\<close>

text \<open>
  Claim C1 states that a request that is approved or rejected never changes its status
  again. \<open>approve_request\<close> and \<open>admin_assign\<close> update pending rows only, but the \<open>UPDATE\<close>
  of \<open>reject_request\<close> has no condition on the status. Starting from the empty database:
  user 1 registers in apartment 10, user 2 asks for it and is approved by user 1, user 2
  asks again (a second, pending request with the same approver), and user 1 rejects.
  Before the rejection the two requests are approved and pending; after it both are
  rejected, so the approved request has changed its status.
\<close>

theorem reject_request_overwrites_approved:
  "map status (approval_requests
      (run 100 (create_db 100 empty_db)
         [SetApartment 1 10, SetApartment 2 10, Approve 1 2, SetApartment 2 10])) =
     [Approved, Pending]
   \<and> map status (approval_requests
      (run 100 (create_db 100 empty_db)
         [SetApartment 1 10, SetApartment 2 10, Approve 1 2, SetApartment 2 10, Reject 1 2])) =
     [Rejected, Rejected]"
  by (simp add: create_db_def empty_db_def insert_or_ignore_admin_def
      request_apartment_access_def is_valid_apartment_iff insert_apartment_def
      approve_request_def reject_request_def pending_for_def
      select_user_ids_def select_apartment_numbers_def)

end
